theory Spec2Isabelle
  imports Main "HOL-Library.AList"
begin

section \<open>The clinic booking form script (scripts.js)\<close>

text \<open>
  The script is one \<open>DOMContentLoaded\<close> handler.  It attaches a \<open>change\<close> listener to
  the specialty control; the listener either resets the doctor control at once or
  starts a \<open>fetch\<close> whose second \<open>then\<close> callback rebuilds the doctor control from the
  parsed body.  The model below follows the script line by line: the document is a
  store of elements addressed by id, every \<open>fetch\<close> is an entry of a list of requests
  in flight, and the environment settles the requests in any order it likes.

  Strings are the byte strings of the source file (UTF-8); the script only
  concatenates them, stores them and tests them for emptiness.
\<close>

subsection \<open>Values produced by \<open>response.json()\<close>\<close>

text \<open>
  A parsed JSON value.  \<open>JObj\<close> lists the own properties of the object; a property is
  read with \<open>map_of\<close>.  Numbers are kept abstract (type \<open>'n\<close>): what the script needs
  from the engine about them is collected in the record \<open>runtime\<close>.
\<close>

datatype 'n json =
    JNull
  | JBool bool
  | JNum 'n
  | JStr string
  | JArr "'n json list"
  | JObj "(string \<times> 'n json) list"

datatype js_error = TypeError | SyntaxError

text \<open>
  The engine's built-in conversions the script relies on:
  \<open>number_to_string n\<close> is \<open>String(n)\<close>, \<open>number_positive n\<close> is \<open>n > 0\<close>, and
  \<open>string_positive s\<close> is \<open>Number(s) > 0\<close>.
\<close>

record 'n runtime =
  number_to_string :: "'n \<Rightarrow> string"
  number_positive :: "'n \<Rightarrow> bool"
  string_positive :: "string \<Rightarrow> bool"

text \<open>
  \<open>join_with sep [a, b, c] = a @ sep @ b @ sep @ c\<close>, stopping at the first part
  that is an exception.
\<close>

fun join_with :: "string \<Rightarrow> (js_error + string) list \<Rightarrow> js_error + string" where
  "join_with sep [] = Inr []"
| "join_with sep [p] = p"
| "join_with sep (p # q # ps) =
     (case p of
        Inl e \<Rightarrow> Inl e
      | Inr s \<Rightarrow> (case join_with sep (q # ps) of Inl e \<Rightarrow> Inl e | Inr t \<Rightarrow> Inr (s @ sep @ t)))"

text \<open>
  \<open>to_string\<close> is the abstract operation ToString on a parsed JSON value.  An array
  is joined with commas, \<open>null\<close> elements printing as the empty string
  (\<open>Array.prototype.join\<close>).  A plain object prints as \<open>[object Object]\<close> through
  \<open>Object.prototype.toString\<close>, unless it has an own property \<open>toString\<close>: a parsed
  value is never callable, so the conversion to a primitive finds no usable method
  and throws a TypeError.
\<close>

fun to_string :: "'n runtime \<Rightarrow> 'n json \<Rightarrow> js_error + string" where
  "to_string rt JNull = Inr ''null''"
| "to_string rt (JBool b) = Inr (if b then ''true'' else ''false'')"
| "to_string rt (JNum n) = Inr (number_to_string rt n)"
| "to_string rt (JStr s) = Inr s"
| "to_string rt (JArr xs) =
     join_with '','' (map (\<lambda>x. if x = JNull then Inr [] else to_string rt x) xs)"
| "to_string rt (JObj ps) =
     (case map_of ps ''toString'' of
        None \<Rightarrow> Inr ''[object Object]''
      | Some _ \<Rightarrow> Inl TypeError)"

text \<open>
  Conversion of a script value to the IDL type \<open>DOMString\<close> (the setter of
  \<open>option.value\<close>); \<open>None\<close> is \<open>undefined\<close>.
\<close>

definition to_dom_string :: "'n runtime \<Rightarrow> 'n json option \<Rightarrow> js_error + string" where
  "to_dom_string rt v =
     (case v of None \<Rightarrow> Inr ''undefined'' | Some x \<Rightarrow> to_string rt x)"

text \<open>
  Conversion to the nullable IDL type \<open>DOMString?\<close> (the setter of \<open>textContent\<close>):
  \<open>undefined\<close> and \<open>null\<close> both become the IDL \<open>null\<close>, here \<open>None\<close>.
\<close>

definition to_nullable_dom_string ::
  "'n runtime \<Rightarrow> 'n json option \<Rightarrow> js_error + string option" where
  "to_nullable_dom_string rt v =
     (case v of
        None \<Rightarrow> Inr None
      | Some JNull \<Rightarrow> Inr None
      | Some x \<Rightarrow> (case to_string rt x of Inl e \<Rightarrow> Inl e | Inr s \<Rightarrow> Inr (Some s)))"

text \<open>
  \<open>get_member v k\<close> is the property read \<open>v.k\<close> for a name \<open>k\<close> that no built-in
  prototype defines (the script reads \<open>id\<close> and \<open>name\<close>).  Reading a property of
  \<open>null\<close> throws; on any other value that is not an object with that own property
  the result is \<open>undefined\<close>.
\<close>

fun get_member :: "'n json \<Rightarrow> string \<Rightarrow> js_error + 'n json option" where
  "get_member JNull k = Inl TypeError"
| "get_member (JObj ps) k = Inr (map_of ps k)"
| "get_member v k = Inr None"

text \<open>
  \<open>greater_zero rt v\<close> is the comparison \<open>v > 0\<close>.  The operand is made primitive
  first (an array through \<open>join\<close>, an object through \<open>toString\<close>) and then numeric:
  \<open>null\<close> is 0, \<open>true\<close> is 1, \<open>[object Object]\<close> is NaN.
\<close>

fun greater_zero :: "'n runtime \<Rightarrow> 'n json \<Rightarrow> js_error + bool" where
  "greater_zero rt JNull = Inr False"
| "greater_zero rt (JBool b) = Inr b"
| "greater_zero rt (JNum n) = Inr (number_positive rt n)"
| "greater_zero rt (JStr s) = Inr (string_positive rt s)"
| "greater_zero rt (JArr xs) =
     (case to_string rt (JArr xs) of Inl e \<Rightarrow> Inl e | Inr s \<Rightarrow> Inr (string_positive rt s))"
| "greater_zero rt (JObj ps) =
     (case to_string rt (JObj ps) of Inl e \<Rightarrow> Inl e | Inr s \<Rightarrow> Inr False)"

text \<open>
  \<open>length_positive rt data\<close> is the test \<open>data.length > 0\<close> of line 11.  Booleans and
  numbers have no \<open>length\<close> (\<open>undefined > 0\<close> is false); a string and an array have
  their length; an object has what its own property \<open>length\<close> holds, if any.
\<close>

fun length_positive :: "'n runtime \<Rightarrow> 'n json \<Rightarrow> js_error + bool" where
  "length_positive rt JNull = Inl TypeError"
| "length_positive rt (JBool b) = Inr False"
| "length_positive rt (JNum n) = Inr False"
| "length_positive rt (JStr s) = Inr (0 < length s)"
| "length_positive rt (JArr xs) = Inr (0 < length xs)"
| "length_positive rt (JObj ps) =
     (case map_of ps ''length'' of None \<Rightarrow> Inr False | Some v \<Rightarrow> greater_zero rt v)"

subsection \<open>The document\<close>

text \<open>
  An \<open>option\<close> element as the script builds it: its content attributes and its
  text content.  \<open>createElement('option')\<close> gives an element with neither.
\<close>

record option_el =
  attrs :: "(string \<times> string) list"
  text_content :: string

definition create_option :: option_el where
  "create_option = \<lparr>attrs = [], text_content = []\<rparr>"

text \<open>\<open>option.value = s\<close> sets the content attribute \<open>value\<close>.\<close>

definition set_value :: "string \<Rightarrow> option_el \<Rightarrow> option_el" where
  "set_value s opt = opt\<lparr>attrs := AList.update ''value'' s (attrs opt)\<rparr>"

text \<open>\<open>option.textContent = s\<close>; the IDL \<open>null\<close> acts as the empty string.\<close>

definition set_text_content :: "string option \<Rightarrow> option_el \<Rightarrow> option_el" where
  "set_text_content s opt =
     opt\<lparr>text_content := (case s of None \<Rightarrow> [] | Some t \<Rightarrow> t)\<rparr>"

text \<open>An option cannot be chosen by the user exactly when it carries \<open>disabled\<close>.\<close>

definition option_disabled :: "option_el \<Rightarrow> bool" where
  "option_disabled opt = (map_of (attrs opt) ''disabled'' \<noteq> None)"

text \<open>The two function expressions the script registers as listeners.\<close>

datatype listener = SpecialtyChange | DateChange

text \<open>
  An element of the page: the \<open>option\<close> children it holds (its subtree) and the
  \<open>change\<close> listeners attached to it.
\<close>

record element =
  children :: "option_el list"
  change_listeners :: "listener list"

definition append_child :: "option_el \<Rightarrow> element \<Rightarrow> element" where
  "append_child opt el = el\<lparr>children := children el @ [opt]\<rparr>"

definition add_change_listener :: "listener \<Rightarrow> element \<Rightarrow> element" where
  "add_change_listener l el = el\<lparr>change_listeners := change_listeners el @ [l]\<rparr>"

text \<open>
  A request started by \<open>fetch\<close> and not yet settled: its URL, and the value of
  \<open>doctorSelect\<close> its callback closes over (\<open>None\<close> is \<open>null\<close>, \<open>Some i\<close> the element
  with id \<open>i\<close>).
\<close>

record request =
  url :: string
  doctorSelect :: "string option"

text \<open>
  The state of the page: \<open>document s i\<close> is \<open>document.getElementById(i)\<close>, and
  \<open>in_flight s\<close> the requests awaiting their response, oldest first.
\<close>

record page =
  document :: "string \<rightharpoonup> element"
  in_flight :: "request list"

text \<open>The options of the doctor-selection control, if the control exists.\<close>

definition doctor_options :: "page \<Rightarrow> option_el list option" where
  "doctor_options s = map_option children (document s ''id_doctor'')"

subsection \<open>The string literals\<close>

text \<open>Line 20: the Russian for "no doctors available", as the bytes of the source.\<close>

definition no_doctors_text :: string where
  "no_doctors_text =
     [CHR 0xD0, CHR 0x9D, CHR 0xD0, CHR 0xB5, CHR 0xD1, CHR 0x82, CHR 0x20,
      CHR 0xD0, CHR 0xB4, CHR 0xD0, CHR 0xBE, CHR 0xD1, CHR 0x81, CHR 0xD1, CHR 0x82,
      CHR 0xD1, CHR 0x83, CHR 0xD0, CHR 0xBF, CHR 0xD0, CHR 0xBD, CHR 0xD1, CHR 0x8B,
      CHR 0xD1, CHR 0x85, CHR 0x20,
      CHR 0xD0, CHR 0xB2, CHR 0xD1, CHR 0x80, CHR 0xD0, CHR 0xB0, CHR 0xD1, CHR 0x87,
      CHR 0xD0, CHR 0xB5, CHR 0xD0, CHR 0xB9]"

text \<open>Line 25: the Russian for "first choose a specialty".\<close>

definition choose_specialty_text :: string where
  "choose_specialty_text =
     [CHR 0xD0, CHR 0xA1, CHR 0xD0, CHR 0xBD, CHR 0xD0, CHR 0xB0, CHR 0xD1, CHR 0x87,
      CHR 0xD0, CHR 0xB0, CHR 0xD0, CHR 0xBB, CHR 0xD0, CHR 0xB0, CHR 0x20,
      CHR 0xD0, CHR 0xB2, CHR 0xD1, CHR 0x8B, CHR 0xD0, CHR 0xB1, CHR 0xD0, CHR 0xB5,
      CHR 0xD1, CHR 0x80, CHR 0xD0, CHR 0xB8, CHR 0xD1, CHR 0x82, CHR 0xD0, CHR 0xB5,
      CHR 0x20,
      CHR 0xD1, CHR 0x81, CHR 0xD0, CHR 0xBF, CHR 0xD0, CHR 0xB5, CHR 0xD1, CHR 0x86,
      CHR 0xD0, CHR 0xB8, CHR 0xD0, CHR 0xB0, CHR 0xD0, CHR 0xBB, CHR 0xD1, CHR 0x8C,
      CHR 0xD0, CHR 0xBD, CHR 0xD0, CHR 0xBE, CHR 0xD1, CHR 0x81, CHR 0xD1, CHR 0x82,
      CHR 0xD1, CHR 0x8C]"

text \<open>
  What the HTML parser makes of the literal assigned to \<open>innerHTML\<close> on line 25:
  one \<open>option\<close> with the attribute \<open>value=""\<close> and the text above.
\<close>

definition choose_specialty_option :: option_el where
  "choose_specialty_option = \<lparr>attrs = [(''value'', [])], text_content = choose_specialty_text\<rparr>"

subsection \<open>The response callback (lines 9 to 23)\<close>

text \<open>
  Lines 13 to 15: the option built for one element of the array.  Reading
  \<open>doctor.id\<close> or converting it can throw, and so can \<open>doctor.name\<close>.
\<close>

definition make_option :: "'n runtime \<Rightarrow> 'n json \<Rightarrow> js_error + option_el" where
  "make_option rt doctor =
     (case get_member doctor ''id'' of
        Inl e \<Rightarrow> Inl e
      | Inr i \<Rightarrow>
         (case to_dom_string rt i of
            Inl e \<Rightarrow> Inl e
          | Inr v \<Rightarrow>
             (case get_member doctor ''name'' of
                Inl e \<Rightarrow> Inl e
              | Inr n \<Rightarrow>
                 (case to_nullable_dom_string rt n of
                    Inl e \<Rightarrow> Inl e
                  | Inr t \<Rightarrow> Inr (set_text_content t (set_value v create_option))))))"

text \<open>
  Lines 12 to 17: \<open>data.forEach\<close> over the elements of an array.  An exception in
  the callback ends the loop; the options appended before it stay.
\<close>

fun for_each :: "'n runtime \<Rightarrow> 'n json list \<Rightarrow> element \<Rightarrow> element \<times> js_error option" where
  "for_each rt [] sel = (sel, None)"
| "for_each rt (doctor # rest) sel =
     (case make_option rt doctor of
        Inl e \<Rightarrow> (sel, Some e)
      | Inr opt \<Rightarrow> for_each rt rest (append_child opt sel))"

text \<open>
  Lines 10 to 22, run on the element \<open>doctorSelect\<close> refers to.  The control is
  emptied first.  Only an array has a \<open>forEach\<close> method: on a string or an object
  whose length is positive the call throws.
\<close>

definition on_data :: "'n runtime \<Rightarrow> 'n json \<Rightarrow> element \<Rightarrow> element \<times> js_error option" where
  "on_data rt data sel =
     (let sel0 = sel\<lparr>children := []\<rparr> in
      case length_positive rt data of
        Inl e \<Rightarrow> (sel0, Some e)
      | Inr True \<Rightarrow>
         (case data of
            JArr doctors \<Rightarrow> for_each rt doctors sel0
          | _ \<Rightarrow> (sel0, Some TypeError))
      | Inr False \<Rightarrow>
         (append_child (set_text_content (Some no_doctors_text) create_option) sel0, None))"

subsection \<open>The change handler of the specialty control (lines 2 to 27)\<close>

text \<open>
  \<open>specialtyId\<close> is \<open>this.value\<close>, the value the specialty control reports when the
  event fires.  A non-empty string is truthy: the request is started and nothing
  else happens until it settles.  The empty string resets the doctor control, which
  throws when \<open>doctorSelect\<close> is \<open>null\<close>.
\<close>

definition on_specialty_change :: "string \<Rightarrow> page \<Rightarrow> page \<times> js_error option" where
  "on_specialty_change specialtyId s =
     (let sel = (case document s ''id_doctor'' of None \<Rightarrow> None | Some _ \<Rightarrow> Some ''id_doctor'') in
      if specialtyId \<noteq> [] then
        (s\<lparr>in_flight := in_flight s @
             [\<lparr>url = ''/get-doctors/?specialty_id='' @ specialtyId, doctorSelect = sel\<rparr>]\<rparr>,
         None)
      else
        (case document s ''id_doctor'' of
           None \<Rightarrow> (s, Some TypeError)
         | Some el \<Rightarrow>
            (s\<lparr>document := (document s)(''id_doctor'' \<mapsto> el\<lparr>children := [choose_specialty_option]\<rparr>)\<rparr>,
             None)))"

text \<open>
  How the environment settles a request: the fetch fails (the promise rejects with
  a TypeError), the body is not JSON (\<open>response.json()\<close> rejects with a
  SyntaxError), or the body parses to a value.
\<close>

datatype 'n response = FetchFailed | BodyNotJson | Parsed "'n json"

text \<open>
  \<open>settle rt k resp s\<close>: the \<open>k\<close>-th request in flight receives \<open>resp\<close>.  A rejection
  skips the \<open>then\<close> callbacks.  With a parsed body the callback of lines 9 to 23
  runs on the element captured in \<open>doctorSelect\<close>; with \<open>null\<close> captured, line 10
  throws.  The second component is the reason the promise chain ends rejected
  with, if it does.  (An element that has left the document would still be
  written to, invisibly for the document; the script never removes one.)
\<close>

definition settle :: "'n runtime \<Rightarrow> nat \<Rightarrow> 'n response \<Rightarrow> page \<Rightarrow> page \<times> js_error option" where
  "settle rt k resp s =
     (if k < length (in_flight s) then
        (let r = in_flight s ! k;
             s1 = s\<lparr>in_flight := take k (in_flight s) @ drop (Suc k) (in_flight s)\<rparr>
         in case resp of
              FetchFailed \<Rightarrow> (s1, Some TypeError)
            | BodyNotJson \<Rightarrow> (s1, Some SyntaxError)
            | Parsed data \<Rightarrow>
               (case doctorSelect r of
                  None \<Rightarrow> (s1, Some TypeError)
                | Some i \<Rightarrow>
                   (case document s i of
                      None \<Rightarrow> (s1, None)
                    | Some el \<Rightarrow>
                       (s1\<lparr>document := (document s)(i \<mapsto> fst (on_data rt data el))\<rparr>,
                        snd (on_data rt data el)))))
      else (s, None))"

subsection \<open>Page-load initialisation (lines 1 to 36)\<close>

text \<open>
  The \<open>DOMContentLoaded\<close> handler.  Line 2 calls \<open>addEventListener\<close> on whatever
  \<open>getElementById('id_specialty')\<close> returns, so a missing element throws there and
  the rest of the handler does not run.  The date control is tested before use.
  The doctor control is not looked up here at all.
\<close>

definition on_dom_content_loaded :: "page \<Rightarrow> page \<times> js_error option" where
  "on_dom_content_loaded s =
     (case document s ''id_specialty'' of
        None \<Rightarrow> (s, Some TypeError)
      | Some sp \<Rightarrow>
         (let s1 = s\<lparr>document :=
                      (document s)(''id_specialty'' \<mapsto> add_change_listener SpecialtyChange sp)\<rparr>
          in case document s1 ''id_date'' of
               None \<Rightarrow> (s1, None)
             | Some d \<Rightarrow>
                (s1\<lparr>document := (document s1)(''id_date'' \<mapsto> add_change_listener DateChange d)\<rparr>,
                 None)))"

text \<open>Running one registered listener; the date listener has an empty body.\<close>

fun run_listener :: "listener \<Rightarrow> string \<Rightarrow> page \<Rightarrow> page \<times> js_error option" where
  "run_listener SpecialtyChange v s = on_specialty_change v s"
| "run_listener DateChange v s = (s, None)"

text \<open>
  A \<open>change\<close> event on the element with id \<open>i\<close> whose value is \<open>v\<close>: its listeners
  run in the order they were added; an exception in one is reported and does not
  stop the next.  The result lists the exceptions reported.
\<close>

fun run_listeners :: "listener list \<Rightarrow> string \<Rightarrow> page \<Rightarrow> page \<times> js_error list" where
  "run_listeners [] v s = (s, [])"
| "run_listeners (l # ls) v s =
     (let (s1, e) = run_listener l v s; (s2, es) = run_listeners ls v s1
      in (s2, (case e of None \<Rightarrow> [] | Some x \<Rightarrow> [x]) @ es))"

definition dispatch_change :: "string \<Rightarrow> string \<Rightarrow> page \<Rightarrow> page \<times> js_error list" where
  "dispatch_change i v s =
     (case document s i of
        None \<Rightarrow> (s, [])
      | Some el \<Rightarrow> run_listeners (change_listeners el) v s)"

subsection \<open>Scenarios and the records of the specification\<close>

text \<open>
  One complete change event: the handler runs and, if it started a request, that
  request (the newest in flight) is settled with \<open>resp\<close>.
\<close>

definition change_and_response :: "'n runtime \<Rightarrow> string \<Rightarrow> 'n response \<Rightarrow> page \<Rightarrow> page" where
  "change_and_response rt specialtyId resp s =
     (let s1 = fst (on_specialty_change specialtyId s) in
      if length (in_flight s) < length (in_flight s1)
      then fst (settle rt (length (in_flight s)) resp s1)
      else s1)"

text \<open>
  A Doctor record of the specification: an object whose \<open>id\<close> is a string or a
  number and whose \<open>name\<close> is a string.  \<open>doctor_id_text\<close> is the identifier as a
  string, the form in which an attribute can hold it.
\<close>

definition is_doctor :: "'n json \<Rightarrow> bool" where
  "is_doctor d =
     (case d of
        JObj ps \<Rightarrow>
          (case map_of ps ''id'' of Some (JStr _) \<Rightarrow> True | Some (JNum _) \<Rightarrow> True | _ \<Rightarrow> False) \<and>
          (case map_of ps ''name'' of Some (JStr _) \<Rightarrow> True | _ \<Rightarrow> False)
      | _ \<Rightarrow> False)"

definition doctor_id_text :: "'n runtime \<Rightarrow> 'n json \<Rightarrow> string" where
  "doctor_id_text rt d =
     (case d of
        JObj ps \<Rightarrow>
          (case map_of ps ''id'' of
             Some (JStr s) \<Rightarrow> s
           | Some (JNum n) \<Rightarrow> number_to_string rt n
           | _ \<Rightarrow> [])
      | _ \<Rightarrow> [])"

definition doctor_name :: "'n json \<Rightarrow> string" where
  "doctor_name d =
     (case d of
        JObj ps \<Rightarrow> (case map_of ps ''name'' of Some (JStr s) \<Rightarrow> s | _ \<Rightarrow> [])
      | _ \<Rightarrow> [])"

text \<open>
  \<open>printable v\<close>: converting \<open>v\<close> to a string does not throw, that is, no object
  inside \<open>v\<close> that the conversion reaches has an own property \<open>toString\<close>.
\<close>

fun printable :: "'n json \<Rightarrow> bool" where
  "printable (JArr xs) = list_all printable xs"
| "printable (JObj ps) = (map_of ps ''toString'' = None)"
| "printable v = True"

text \<open>
  \<open>member_printable d k\<close>: the member \<open>k\<close> of \<open>d\<close>, when \<open>d\<close> has one, is printable.
\<close>

definition member_printable :: "'n json \<Rightarrow> string \<Rightarrow> bool" where
  "member_printable d k =
     (case d of
        JObj ps \<Rightarrow> (case map_of ps k of None \<Rightarrow> True | Some v \<Rightarrow> printable v)
      | _ \<Rightarrow> True)"

text \<open>
  What an option is expected to show for an element of the array.  \<open>own_member d k\<close>
  is the member \<open>k\<close> of a record, \<open>None\<close> when the record lacks it or the element
  is no record.  The \<open>value\<close> attribute holds the identifier in string form, and
  the word \<open>undefined\<close> when there is none; the label is the name in string form,
  and empty when the name is missing or \<open>null\<close>.
\<close>

definition own_member :: "'n json \<Rightarrow> string \<Rightarrow> 'n json option" where
  "own_member d k = (case d of JObj ps \<Rightarrow> map_of ps k | _ \<Rightarrow> None)"

fun expected_value :: "'n runtime \<Rightarrow> 'n json option \<Rightarrow> string" where
  "expected_value rt None = ''undefined''"
| "expected_value rt (Some JNull) = ''null''"
| "expected_value rt (Some (JBool b)) = (if b then ''true'' else ''false'')"
| "expected_value rt (Some (JNum n)) = number_to_string rt n"
| "expected_value rt (Some (JStr s)) = s"
| "expected_value rt (Some v) = (case to_string rt v of Inl _ \<Rightarrow> [] | Inr s \<Rightarrow> s)"

fun expected_label :: "'n runtime \<Rightarrow> 'n json option \<Rightarrow> string" where
  "expected_label rt None = []"
| "expected_label rt (Some JNull) = []"
| "expected_label rt (Some v) = expected_value rt (Some v)"

text \<open>
  Every request in flight has captured \<open>null\<close> or the doctor control: the only
  requests the change handler makes.
\<close>

definition captured_doctor_only :: "page \<Rightarrow> bool" where
  "captured_doctor_only s =
     list_all (\<lambda>r. doctorSelect r = None \<or> doctorSelect r = Some ''id_doctor'') (in_flight s)"

subsection \<open>A runtime and a page for the examples\<close>

text \<open>
  An instance of \<open>runtime\<close> with natural numbers for the JSON numbers, printed in
  decimal.  As numeric strings it knows the unsigned decimal integers only, which
  is all the examples below contain.
\<close>

definition digit_char :: "nat \<Rightarrow> char" where
  "digit_char d = ''0123456789'' ! d"

function show_nat :: "nat \<Rightarrow> string" where
  "show_nat n =
     (if n < 10 then [digit_char n] else show_nat (n div 10) @ [digit_char (n mod 10)])"
  by pat_completeness auto
termination
  by (relation "measure id") auto

declare show_nat.simps [simp del]

definition decimal_positive :: "string \<Rightarrow> bool" where
  "decimal_positive s =
     (s \<noteq> [] \<and> list_all (\<lambda>c. c \<in> set ''0123456789'') s \<and> \<not> list_all (\<lambda>c. c = CHR ''0'') s)"

definition nat_runtime :: "nat runtime" where
  "nat_runtime =
     \<lparr>number_to_string = show_nat, number_positive = (\<lambda>n. 0 < n),
      string_positive = decimal_positive\<rparr>"

text \<open>A booking form with the three controls; the doctor control holds one stale option.\<close>

definition stale_option :: option_el where
  "stale_option = \<lparr>attrs = [(''value'', ''4'')], text_content = ''Dr. Old''\<rparr>"

definition booking_form :: page where
  "booking_form =
     \<lparr>document =
        [''id_specialty'' \<mapsto> \<lparr>children = [], change_listeners = [SpecialtyChange]\<rparr>,
         ''id_doctor'' \<mapsto> \<lparr>children = [stale_option], change_listeners = []\<rparr>,
         ''id_date'' \<mapsto> \<lparr>children = [], change_listeners = [DateChange]\<rparr>],
      in_flight = []\<rparr>"

text \<open>The same form without the doctor control, before initialisation.\<close>

definition form_without_doctor :: page where
  "form_without_doctor =
     \<lparr>document =
        [''id_specialty'' \<mapsto> \<lparr>children = [], change_listeners = []\<rparr>,
         ''id_date'' \<mapsto> \<lparr>children = [], change_listeners = []\<rparr>],
      in_flight = []\<rparr>"

text \<open>The response of the specification's example, and a second list.\<close>

definition example_doctors :: "nat json list" where
  "example_doctors =
     [JObj [(''id'', JNum 7), (''name'', JStr ''Dr. Ivanova'')],
      JObj [(''id'', JNum 9), (''name'', JStr ''Dr. Petrov'')]]"

definition other_doctors :: "nat json list" where
  "other_doctors = [JObj [(''id'', JStr ''d12''), (''name'', JStr ''Dr. Sidorov'')]]"

text \<open>Records that lack \<open>id\<close> or \<open>name\<close>, and an element that is no record at all.\<close>

definition partial_records :: "nat json list" where
  "partial_records =
     [JObj [], JObj [(''id'', JNum 7)], JObj [(''name'', JStr ''Dr. Petrov'')], JStr ''x'']"

section \<open>Properties\<close>

subsection \<open>Auxiliary facts\<close>

lemma show_nat_digit: "n < 10 \<Longrightarrow> show_nat n = [digit_char n]"
  by (simp add: show_nat.simps)

lemma for_each_all_ok:
  "list_all2 (\<lambda>d opt. make_option rt d = Inr opt) ds opts \<Longrightarrow>
   for_each rt ds sel = (sel\<lparr>children := children sel @ opts\<rparr>, None)"
proof (induction ds opts arbitrary: sel rule: list_all2_induct)
  case Nil
  show ?case by simp
next
  case (Cons d opt ds opts)
  then show ?case by (simp add: append_child_def)
qed

text \<open>
  What the loop appends, and the exception it ends with, do not depend on the
  element it appends to: they are those of a run on an empty element.
\<close>

lemma for_each_indep:
  "for_each rt ds sel =
     (sel\<lparr>children := children sel @
            children (fst (for_each rt ds \<lparr>children = [], change_listeners = []\<rparr>))\<rparr>,
      snd (for_each rt ds \<lparr>children = [], change_listeners = []\<rparr>))"
proof (induction ds arbitrary: sel)
  case Nil
  show ?case by simp
next
  case (Cons d ds)
  show ?case
  proof (cases "make_option rt d")
    case (Inl e)
    then show ?thesis by simp
  next
    case (Inr opt)
    let ?E = "\<lparr>children = [], change_listeners = []\<rparr>"
    have a: "for_each rt (d # ds) sel = for_each rt ds (append_child opt sel)"
      using Inr by simp
    have b: "for_each rt (d # ds) ?E = for_each rt ds (append_child opt ?E)"
      using Inr by simp
    from Cons.IH [of "append_child opt sel"] Cons.IH [of "append_child opt ?E"]
    show ?thesis
      unfolding a b by (simp add: append_child_def)
  qed
qed

lemma for_each_listeners: "change_listeners (fst (for_each rt ds sel)) = change_listeners sel"
  by (subst for_each_indep) simp

lemma for_each_children_cong:
  "children sel = children sel' \<Longrightarrow>
   children (fst (for_each rt ds sel)) = children (fst (for_each rt ds sel'))"
proof -
  assume h: "children sel = children sel'"
  have "children (fst (for_each rt ds sel)) =
        children sel @ children (fst (for_each rt ds \<lparr>children = [], change_listeners = []\<rparr>))"
    by (subst for_each_indep) simp
  moreover have "children (fst (for_each rt ds sel')) =
        children sel' @ children (fst (for_each rt ds \<lparr>children = [], change_listeners = []\<rparr>))"
    by (subst for_each_indep) simp
  ultimately show ?thesis using h by simp
qed

lemma for_each_snd: "snd (for_each rt ds sel) = snd (for_each rt ds sel')"
proof -
  have "snd (for_each rt ds sel) = snd (for_each rt ds \<lparr>children = [], change_listeners = []\<rparr>)"
    by (subst for_each_indep) simp
  moreover have "snd (for_each rt ds sel') = snd (for_each rt ds \<lparr>children = [], change_listeners = []\<rparr>)"
    by (subst for_each_indep) simp
  ultimately show ?thesis by simp
qed

lemma on_data_listeners: "change_listeners (fst (on_data rt data sel)) = change_listeners sel"
  by (simp add: on_data_def Let_def append_child_def for_each_listeners
      split: sum.splits bool.splits json.splits)

lemma on_data_children: "children (fst (on_data rt data sel)) = children (fst (on_data rt data sel'))"
proof -
  have "children (fst (for_each rt ds (sel\<lparr>children := []\<rparr>))) =
        children (fst (for_each rt ds (sel'\<lparr>children := []\<rparr>)))" for ds
    by (rule for_each_children_cong) simp
  then show ?thesis
    by (simp add: on_data_def Let_def append_child_def split: sum.splits bool.splits json.splits)
qed

lemma on_data_snd: "snd (on_data rt data sel) = snd (on_data rt data sel')"
proof -
  have "snd (for_each rt ds (sel\<lparr>children := []\<rparr>)) = snd (for_each rt ds (sel'\<lparr>children := []\<rparr>))" for ds
    by (rule for_each_snd)
  then show ?thesis
    by (simp add: on_data_def Let_def split: sum.splits bool.splits json.splits)
qed

text \<open>The handler on a non-empty selection: one request more, nothing else.\<close>

lemma on_specialty_change_nonempty:
  "specialtyId \<noteq> [] \<Longrightarrow>
   on_specialty_change specialtyId s =
     (s\<lparr>in_flight := in_flight s @
          [\<lparr>url = ''/get-doctors/?specialty_id='' @ specialtyId,
            doctorSelect = map_option (\<lambda>_. ''id_doctor'') (document s ''id_doctor'')\<rparr>]\<rparr>,
      None)"
  by (simp add: on_specialty_change_def split: option.splits)

text \<open>Settling the request that was added last gives back the earlier list.\<close>

lemma settle_newest:
  "settle rt (length (in_flight s)) resp (s\<lparr>in_flight := in_flight s @ [r]\<rparr>) =
     (case resp of
        FetchFailed \<Rightarrow> (s, Some TypeError)
      | BodyNotJson \<Rightarrow> (s, Some SyntaxError)
      | Parsed data \<Rightarrow>
         (case doctorSelect r of
            None \<Rightarrow> (s, Some TypeError)
          | Some i \<Rightarrow>
             (case document s i of
                None \<Rightarrow> (s, None)
              | Some el \<Rightarrow>
                 (s\<lparr>document := (document s)(i \<mapsto> fst (on_data rt data el))\<rparr>,
                  snd (on_data rt data el)))))"
  by (simp add: settle_def Let_def split: response.splits option.splits)

lemma change_then_parsed:
  "specialtyId \<noteq> [] \<Longrightarrow> document s ''id_doctor'' = Some el \<Longrightarrow>
   settle rt (length (in_flight s)) (Parsed data) (fst (on_specialty_change specialtyId s)) =
     (s\<lparr>document := (document s)(''id_doctor'' \<mapsto> fst (on_data rt data el))\<rparr>,
      snd (on_data rt data el))"
  by (simp add: on_specialty_change_nonempty settle_newest)

lemma make_option_doctor:
  "is_doctor d \<Longrightarrow>
   make_option rt d = Inr \<lparr>attrs = [(''value'', doctor_id_text rt d)], text_content = doctor_name d\<rparr>"
  by (auto simp: is_doctor_def make_option_def doctor_id_text_def doctor_name_def
      to_dom_string_def to_nullable_dom_string_def set_value_def set_text_content_def
      create_option_def split: json.splits option.splits)

lemma on_data_doctors:
  assumes "ds \<noteq> []" and "\<forall>d\<in>set ds. is_doctor d"
  shows "on_data rt (JArr ds) sel =
    (sel\<lparr>children :=
        map (\<lambda>d. \<lparr>attrs = [(''value'', doctor_id_text rt d)], text_content = doctor_name d\<rparr>) ds\<rparr>,
     None)"
proof -
  have "list_all2 (\<lambda>d opt. make_option rt d = Inr opt) ds
      (map (\<lambda>d. \<lparr>attrs = [(''value'', doctor_id_text rt d)], text_content = doctor_name d\<rparr>) ds)"
    using assms(2) by (simp add: list_all2_map2 list_all2_same make_option_doctor)
  from for_each_all_ok [OF this, of "sel\<lparr>children := []\<rparr>"] assms(1)
  show ?thesis by (simp add: on_data_def)
qed

lemma on_data_empty_array:
  "on_data rt (JArr []) sel =
     (sel\<lparr>children := [\<lparr>attrs = [], text_content = no_doctors_text\<rparr>]\<rparr>, None)"
  by (simp add: on_data_def append_child_def set_text_content_def create_option_def)

lemma on_data_fst_eq:
  "change_listeners sel = change_listeners sel' \<Longrightarrow>
   fst (on_data rt data sel) = fst (on_data rt data sel')"
  using on_data_children [of rt data sel sel'] on_data_listeners [of rt data sel]
    on_data_listeners [of rt data sel']
  by simp

lemma on_data_again: "fst (on_data rt data (fst (on_data rt data sel))) = fst (on_data rt data sel)"
  by (rule on_data_fst_eq) (simp add: on_data_listeners)

lemma change_and_response_eq:
  "change_and_response rt specialtyId resp s =
     (case document s ''id_doctor'' of
        None \<Rightarrow> s
      | Some el \<Rightarrow>
         if specialtyId = [] then
           s\<lparr>document := (document s)(''id_doctor'' \<mapsto> el\<lparr>children := [choose_specialty_option]\<rparr>)\<rparr>
         else
           (case resp of
              Parsed data \<Rightarrow>
                s\<lparr>document := (document s)(''id_doctor'' \<mapsto> fst (on_data rt data el))\<rparr>
            | _ \<Rightarrow> s))"
proof (cases "specialtyId = []")
  case True
  then show ?thesis
    by (simp add: change_and_response_def on_specialty_change_def split: option.splits)
next
  case False
  then show ?thesis
    by (simp add: change_and_response_def on_specialty_change_nonempty settle_newest
        split: option.splits response.splits)
qed

lemma two_changes:
  "a \<noteq> [] \<Longrightarrow> b \<noteq> [] \<Longrightarrow>
   fst (on_specialty_change b (fst (on_specialty_change a s))) =
     s\<lparr>in_flight := in_flight s @
         [\<lparr>url = ''/get-doctors/?specialty_id='' @ a,
           doctorSelect = map_option (\<lambda>_. ''id_doctor'') (document s ''id_doctor'')\<rparr>,
          \<lparr>url = ''/get-doctors/?specialty_id='' @ b,
           doctorSelect = map_option (\<lambda>_. ''id_doctor'') (document s ''id_doctor'')\<rparr>]\<rparr>"
  by (simp add: on_specialty_change_nonempty)

lemma captured_doctor_only_change:
  "captured_doctor_only s \<Longrightarrow> captured_doctor_only (fst (on_specialty_change specialtyId s))"
  by (simp add: captured_doctor_only_def on_specialty_change_def Let_def split: option.splits)

lemma captured_doctor_only_settle:
  "captured_doctor_only s \<Longrightarrow> captured_doctor_only (fst (settle rt k resp s))"
proof -
  assume inv: "captured_doctor_only s"
  then have "list_all (\<lambda>r. doctorSelect r = None \<or> doctorSelect r = Some ''id_doctor'')
      (take k (in_flight s) @ drop (Suc k) (in_flight s))"
    unfolding captured_doctor_only_def list_all_iff
    by (auto dest: in_set_takeD in_set_dropD)
  with inv show ?thesis
    by (simp add: captured_doctor_only_def settle_def Let_def split: response.splits option.splits)
qed

lemma settle_document:
  assumes "captured_doctor_only s"
  shows "document (fst (settle rt k resp s)) = document s
       \<or> (\<exists>el data. document s ''id_doctor'' = Some el
            \<and> document (fst (settle rt k resp s)) =
                (document s)(''id_doctor'' \<mapsto> fst (on_data rt data el)))"
proof (cases "k < length (in_flight s)")
  case False
  then show ?thesis by (simp add: settle_def)
next
  case True
  with assms have "doctorSelect (in_flight s ! k) = None
      \<or> doctorSelect (in_flight s ! k) = Some ''id_doctor''"
    by (simp add: captured_doctor_only_def list_all_length)
  with True show ?thesis
    by (auto simp: settle_def Let_def split: response.splits option.splits)
qed

lemma join_with_ok:
  "\<forall>p\<in>set ps. \<exists>s. p = Inr s \<Longrightarrow> \<exists>t. join_with sep ps = Inr t"
proof (induction sep ps rule: join_with.induct)
  case (1 sep)
  show ?case by simp
next
  case (2 sep p)
  then show ?case by simp
next
  case (3 sep p q ps)
  from "3.prems" obtain s where p: "p = Inr s" by auto
  from "3.prems" have "\<forall>p\<in>set (q # ps). \<exists>s. p = Inr s" by simp
  with "3.IH" [OF p] obtain t where "join_with sep (q # ps) = Inr t" by blast
  with p show ?case by simp
qed

lemma printable_to_string: "printable v \<Longrightarrow> \<exists>s. to_string rt v = Inr s"
proof (induction rt v rule: to_string.induct)
  case (5 rt xs)
  have "\<forall>p\<in>set (map (\<lambda>x. if x = JNull then Inr [] else to_string rt x) xs). \<exists>s. p = Inr s"
  proof
    fix p
    assume "p \<in> set (map (\<lambda>x. if x = JNull then Inr [] else to_string rt x) xs)"
    then obtain x where x: "x \<in> set xs"
      and p: "p = (if x = JNull then Inr [] else to_string rt x)"
      by auto
    show "\<exists>s. p = Inr s"
    proof (cases "x = JNull")
      case True
      with p show ?thesis by simp
    next
      case False
      from "5.prems" x have "printable x" by (simp add: list_all_iff)
      with "5.IH" [OF x False] p False show ?thesis by simp
    qed
  qed
  from join_with_ok [OF this] show ?case by simp
qed simp_all

lemma make_option_ok:
  assumes "d \<noteq> JNull" and "member_printable d ''id''" and "member_printable d ''name''"
  shows "\<exists>opt. make_option rt d = Inr opt"
proof -
  have i: "\<exists>s. to_dom_string rt v = Inr s" if "get_member d ''id'' = Inr v" for v
  proof (cases v)
    case None
    then show ?thesis by (simp add: to_dom_string_def)
  next
    case (Some x)
    with that assms(2) have "printable x"
      by (cases d) (simp_all add: member_printable_def)
    from printable_to_string [OF this, of rt] Some show ?thesis
      by (simp add: to_dom_string_def)
  qed
  have n: "\<exists>s. to_nullable_dom_string rt v = Inr s" if "get_member d ''name'' = Inr v" for v
  proof (cases v)
    case None
    then show ?thesis by (simp add: to_nullable_dom_string_def)
  next
    case (Some x)
    with that assms(3) have "printable x"
      by (cases d) (simp_all add: member_printable_def)
    from printable_to_string [OF this, of rt] Some show ?thesis
      by (auto simp: to_nullable_dom_string_def split: json.splits)
  qed
  from assms(1) obtain vi where vi: "get_member d ''id'' = Inr vi"
    by (cases d) simp_all
  from assms(1) obtain vn where vn: "get_member d ''name'' = Inr vn"
    by (cases d) simp_all
  from i [OF vi] n [OF vn] vi vn show ?thesis
    by (auto simp: make_option_def)
qed

lemma make_option_expected:
  assumes "d \<noteq> JNull" and "member_printable d ''id''" and "member_printable d ''name''"
  shows "make_option rt d =
    Inr \<lparr>attrs = [(''value'', expected_value rt (own_member d ''id''))],
         text_content = expected_label rt (own_member d ''name'')\<rparr>"
proof -
  have g: "get_member d k = Inr (own_member d k)" for k
    using assms(1) by (cases d) (simp_all add: own_member_def)
  have v: "to_dom_string rt (own_member d ''id'') = Inr (expected_value rt (own_member d ''id''))"
  proof (cases "own_member d ''id''")
    case None
    then show ?thesis by (simp add: to_dom_string_def)
  next
    case (Some x)
    with assms(2) have "printable x"
      by (cases d) (simp_all add: member_printable_def own_member_def)
    from printable_to_string [OF this, of rt] obtain s where "to_string rt x = Inr s" by blast
    with Some show ?thesis by (cases x) (simp_all add: to_dom_string_def)
  qed
  have l: "to_nullable_dom_string rt (own_member d ''name'') =
      Inr (Some (expected_label rt (own_member d ''name'')))
    \<or> (to_nullable_dom_string rt (own_member d ''name'') = Inr None
        \<and> expected_label rt (own_member d ''name'') = [])"
  proof (cases "own_member d ''name''")
    case None
    then show ?thesis by (simp add: to_nullable_dom_string_def)
  next
    case (Some x)
    with assms(3) have "printable x"
      by (cases d) (simp_all add: member_printable_def own_member_def)
    from printable_to_string [OF this, of rt] obtain s where "to_string rt x = Inr s" by blast
    with Some show ?thesis by (cases x) (simp_all add: to_nullable_dom_string_def)
  qed
  from l show ?thesis
    by (auto simp: make_option_def g v set_value_def set_text_content_def create_option_def)
qed

lemma on_data_expected:
  assumes "ds \<noteq> []"
    and "\<forall>d\<in>set ds. d \<noteq> JNull \<and> member_printable d ''id'' \<and> member_printable d ''name''"
  shows "on_data rt (JArr ds) sel =
    (sel\<lparr>children :=
        map (\<lambda>d. \<lparr>attrs = [(''value'', expected_value rt (own_member d ''id''))],
                   text_content = expected_label rt (own_member d ''name'')\<rparr>) ds\<rparr>,
     None)"
proof -
  have "list_all2 (\<lambda>d opt. make_option rt d = Inr opt) ds
      (map (\<lambda>d. \<lparr>attrs = [(''value'', expected_value rt (own_member d ''id''))],
                   text_content = expected_label rt (own_member d ''name'')\<rparr>) ds)"
    using assms(2) by (simp add: list_all2_map2 list_all2_same make_option_expected)
  from for_each_all_ok [OF this, of "sel\<lparr>children := []\<rparr>"] assms(1)
  show ?thesis by (simp add: on_data_def)
qed

subsection \<open>The claims\<close>

text \<open>
  C1.  A change event with a non-empty specialty id whose lookup succeeds with a
  non-empty array of \<open>N\<close> Doctor records leaves the doctor control with exactly \<open>N\<close>
  options, in the order of the array; the \<open>k\<close>-th option has the \<open>k\<close>-th doctor's id
  as its \<open>value\<close> attribute (in string form, as every attribute is) and the
  doctor's name as its text.  The callback ends without an exception.
\<close>

theorem c1_doctor_options:
  assumes "document s ''id_doctor'' = Some el"
    and "specialtyId \<noteq> []"
    and "ds \<noteq> []"
    and "\<forall>d\<in>set ds. is_doctor d"
  shows "doctor_options
           (fst (settle rt (length (in_flight s)) (Parsed (JArr ds))
                  (fst (on_specialty_change specialtyId s)))) =
         Some (map (\<lambda>d. \<lparr>attrs = [(''value'', doctor_id_text rt d)],
                          text_content = doctor_name d\<rparr>) ds)
       \<and> snd (settle rt (length (in_flight s)) (Parsed (JArr ds))
                  (fst (on_specialty_change specialtyId s))) = None"
  using assms by (simp add: change_then_parsed on_data_doctors doctor_options_def)

theorem c1_doctor_options_witness:
  "document booking_form ''id_doctor'' = Some \<lparr>children = [stale_option], change_listeners = []\<rparr>
   \<and> ''3'' \<noteq> [] \<and> example_doctors \<noteq> [] \<and> list_all is_doctor example_doctors
   \<and> doctor_options
        (fst (settle nat_runtime (length (in_flight booking_form)) (Parsed (JArr example_doctors))
               (fst (on_specialty_change ''3'' booking_form)))) =
      Some [\<lparr>attrs = [(''value'', ''7'')], text_content = ''Dr. Ivanova''\<rparr>,
            \<lparr>attrs = [(''value'', ''9'')], text_content = ''Dr. Petrov''\<rparr>]"
proof -
  have h1: "document booking_form ''id_doctor'' =
      Some \<lparr>children = [stale_option], change_listeners = []\<rparr>"
    by (simp add: booking_form_def)
  have h2: "''3'' \<noteq> []" by simp
  have h3: "example_doctors \<noteq> []" by (simp add: example_doctors_def)
  have h4: "\<forall>d\<in>set example_doctors. is_doctor d"
    by (simp add: example_doctors_def is_doctor_def)
  from c1_doctor_options [OF h1 h2 h3 h4, of nat_runtime] h1 h2 h3 h4
  show ?thesis
    by (simp add: example_doctors_def doctor_id_text_def doctor_name_def nat_runtime_def
        show_nat_digit digit_char_def list_all_iff)
qed

text \<open>
  C2.  A change event whose specialty id is the empty string leaves the doctor
  control with exactly one option, the placeholder "first choose a specialty",
  and starts no request: the list of requests in flight is what it was.  The
  placeholder has the attribute \<open>value=""\<close> and no other.
\<close>

theorem c2_empty_selection:
  assumes "document s ''id_doctor'' = Some el"
  shows "doctor_options (fst (on_specialty_change [] s)) =
           Some [\<lparr>attrs = [(''value'', [])], text_content = choose_specialty_text\<rparr>]
       \<and> in_flight (fst (on_specialty_change [] s)) = in_flight s
       \<and> snd (on_specialty_change [] s) = None"
  using assms
  by (simp add: on_specialty_change_def doctor_options_def choose_specialty_option_def)

theorem c2_empty_selection_witness:
  "document booking_form ''id_doctor'' = Some \<lparr>children = [stale_option], change_listeners = []\<rparr>
   \<and> doctor_options (fst (on_specialty_change [] booking_form)) =
       Some [\<lparr>attrs = [(''value'', [])], text_content = choose_specialty_text\<rparr>]
   \<and> in_flight (fst (on_specialty_change [] booking_form)) = []"
proof -
  have h: "document booking_form ''id_doctor'' =
      Some \<lparr>children = [stale_option], change_listeners = []\<rparr>"
    by (simp add: booking_form_def)
  from c2_empty_selection [OF h] h show ?thesis
    by (simp add: booking_form_def)
qed

text \<open>
  C3 (as stated, refuted).  After a successful lookup with an empty array the
  doctor control holds one option with the text "no doctors available", but the
  option is not disabled: the claim that it is non-selectable fails on the
  booking form.
\<close>

theorem c3_counterexample:
  "\<not> (case doctor_options
            (fst (settle nat_runtime (length (in_flight booking_form)) (Parsed (JArr []))
                   (fst (on_specialty_change ''3'' booking_form)))) of
         Some [opt] \<Rightarrow> text_content opt = no_doctors_text \<and> option_disabled opt
       | _ \<Rightarrow> False)"
proof -
  have h1: "document booking_form ''id_doctor'' =
      Some \<lparr>children = [stale_option], change_listeners = []\<rparr>"
    by (simp add: booking_form_def)
  have h2: "''3'' \<noteq> []" by simp
  from change_then_parsed [OF h2 h1, of nat_runtime "JArr []"] show ?thesis
    by (simp add: on_data_empty_array doctor_options_def option_disabled_def)
qed

text \<open>
  C3 (amended).  A change event with a non-empty specialty id whose lookup succeeds
  with an empty array leaves the doctor control with exactly one informational
  option, whose text is "no doctors available".  The option has no attribute at
  all: it is not disabled, so it can be selected.
\<close>

theorem c3_no_doctors_option:
  assumes "document s ''id_doctor'' = Some el"
    and "specialtyId \<noteq> []"
  shows "doctor_options
           (fst (settle rt (length (in_flight s)) (Parsed (JArr []))
                  (fst (on_specialty_change specialtyId s)))) =
         Some [\<lparr>attrs = [], text_content = no_doctors_text\<rparr>]
       \<and> \<not> option_disabled \<lparr>attrs = [], text_content = no_doctors_text\<rparr>
       \<and> snd (settle rt (length (in_flight s)) (Parsed (JArr []))
                  (fst (on_specialty_change specialtyId s))) = None"
  using assms
  by (simp add: change_then_parsed on_data_empty_array doctor_options_def option_disabled_def)

theorem c3_no_doctors_option_witness:
  "document booking_form ''id_doctor'' = Some \<lparr>children = [stale_option], change_listeners = []\<rparr>
   \<and> ''3'' \<noteq> []
   \<and> doctor_options
        (fst (settle nat_runtime (length (in_flight booking_form)) (Parsed (JArr []))
               (fst (on_specialty_change ''3'' booking_form)))) =
      Some [\<lparr>attrs = [], text_content = no_doctors_text\<rparr>]"
proof -
  have h1: "document booking_form ''id_doctor'' =
      Some \<lparr>children = [stale_option], change_listeners = []\<rparr>"
    by (simp add: booking_form_def)
  have h2: "''3'' \<noteq> []" by simp
  from c3_no_doctors_option [OF h1 h2, of nat_runtime] h1 show ?thesis by simp
qed

text \<open>
  C4.  When the lookup of a change event with a non-empty specialty id fails, by a
  network error or by a body that is not JSON, the page is exactly what it was
  before the event: the handler itself leaves the document alone, and the rejected
  promise runs no callback.  In particular the doctor control keeps its options.
\<close>

theorem c4_failure_leaves_state:
  assumes "specialtyId \<noteq> []"
    and "resp = FetchFailed \<or> resp = BodyNotJson"
  shows "document (fst (on_specialty_change specialtyId s)) = document s
       \<and> fst (settle rt (length (in_flight s)) resp (fst (on_specialty_change specialtyId s))) = s
       \<and> doctor_options
           (fst (settle rt (length (in_flight s)) resp (fst (on_specialty_change specialtyId s)))) =
         doctor_options s
       \<and> snd (settle rt (length (in_flight s)) resp (fst (on_specialty_change specialtyId s))) \<noteq> None"
  using assms by (auto simp: on_specialty_change_nonempty settle_newest)

theorem c4_failure_leaves_state_witness:
  "''3'' \<noteq> [] \<and> (BodyNotJson = FetchFailed \<or> BodyNotJson = (BodyNotJson :: nat response))
   \<and> doctor_options
        (fst (settle nat_runtime (length (in_flight booking_form)) BodyNotJson
               (fst (on_specialty_change ''3'' booking_form)))) =
      Some [stale_option]"
proof -
  have h1: "''3'' \<noteq> []" by simp
  have h2: "BodyNotJson = FetchFailed \<or> BodyNotJson = (BodyNotJson :: nat response)" by simp
  from c4_failure_leaves_state [OF h1 h2, of booking_form nat_runtime] show ?thesis
    by (simp add: doctor_options_def booking_form_def)
qed

text \<open>
  C5.  The specialty is changed to \<open>a\<close> and then to \<open>b\<close> before any response; two
  requests are in flight, the older for \<open>a\<close>.  The response for \<open>b\<close> arrives first
  (whatever it is), the response for \<open>a\<close> after it.  The page then is exactly the
  page a lone change to \<open>a\<close> with the same response produces: the doctor control
  shows the list of \<open>a\<close>, the stale selection.  For an array of Doctor records this
  is their list of options.
\<close>

theorem c5_last_response_wins:
  assumes "document s ''id_doctor'' = Some el"
    and "a \<noteq> []"
    and "b \<noteq> []"
  shows "map url (in_flight (fst (on_specialty_change b (fst (on_specialty_change a s))))) =
           map url (in_flight s) @
             [''/get-doctors/?specialty_id='' @ a, ''/get-doctors/?specialty_id='' @ b]
       \<and> fst (settle rt (length (in_flight s)) (Parsed dataA)
              (fst (settle rt (Suc (length (in_flight s))) respB
                     (fst (on_specialty_change b (fst (on_specialty_change a s))))))) =
         fst (settle rt (length (in_flight s)) (Parsed dataA) (fst (on_specialty_change a s)))
       \<and> (dsA \<noteq> [] \<and> (\<forall>d\<in>set dsA. is_doctor d) \<longrightarrow>
           doctor_options
             (fst (settle rt (length (in_flight s)) (Parsed (JArr dsA))
                (fst (settle rt (Suc (length (in_flight s))) respB
                       (fst (on_specialty_change b (fst (on_specialty_change a s)))))))) =
           Some (map (\<lambda>d. \<lparr>attrs = [(''value'', doctor_id_text rt d)],
                            text_content = doctor_name d\<rparr>) dsA))"
proof -
  let ?n = "length (in_flight s)"
  let ?s2 = "fst (on_specialty_change b (fst (on_specialty_change a s)))"
  have urls: "map url (in_flight ?s2) =
      map url (in_flight s) @ [''/get-doctors/?specialty_id='' @ a, ''/get-doctors/?specialty_id='' @ b]"
    using assms by (simp add: two_changes)
  have final: "fst (settle rt ?n (Parsed data) (fst (settle rt (Suc ?n) respB ?s2))) =
      s\<lparr>document := (document s)(''id_doctor'' \<mapsto> fst (on_data rt data el))\<rparr>" for data
  proof -
    obtain doc reqs where s: "s = \<lparr>document = doc, in_flight = reqs\<rparr>"
      by (cases s) simp
    have again: "fst (on_data rt data (fst (on_data rt dataB el))) = fst (on_data rt data el)"
      for dataB
      by (rule on_data_fst_eq) (simp add: on_data_listeners)
    show ?thesis
      using assms unfolding s
      by (cases respB)
        (simp_all add: on_specialty_change_def settle_def Let_def nth_append again)
  qed
  have lone: "fst (settle rt ?n (Parsed data) (fst (on_specialty_change a s))) =
      s\<lparr>document := (document s)(''id_doctor'' \<mapsto> fst (on_data rt data el))\<rparr>" for data
    using assms by (simp add: change_then_parsed)
  show ?thesis
    using urls by (simp add: final lone doctor_options_def on_data_doctors)
qed

theorem c5_last_response_wins_witness:
  "document booking_form ''id_doctor'' = Some \<lparr>children = [stale_option], change_listeners = []\<rparr>
   \<and> ''3'' \<noteq> [] \<and> ''5'' \<noteq> []
   \<and> example_doctors \<noteq> [] \<and> list_all is_doctor example_doctors
   \<and> map url (in_flight (fst (on_specialty_change ''5'' (fst (on_specialty_change ''3'' booking_form))))) =
       [''/get-doctors/?specialty_id=3'', ''/get-doctors/?specialty_id=5'']
   \<and> doctor_options
        (fst (settle nat_runtime 0 (Parsed (JArr example_doctors))
           (fst (settle nat_runtime 1 (Parsed (JArr other_doctors))
                  (fst (on_specialty_change ''5'' (fst (on_specialty_change ''3'' booking_form)))))))) =
       Some [\<lparr>attrs = [(''value'', ''7'')], text_content = ''Dr. Ivanova''\<rparr>,
             \<lparr>attrs = [(''value'', ''9'')], text_content = ''Dr. Petrov''\<rparr>]"
proof -
  have h1: "document booking_form ''id_doctor'' =
      Some \<lparr>children = [stale_option], change_listeners = []\<rparr>"
    by (simp add: booking_form_def)
  have h2: "''3'' \<noteq> []" and h3: "''5'' \<noteq> []" by simp_all
  have h4: "example_doctors \<noteq> [] \<and> (\<forall>d\<in>set example_doctors. is_doctor d)"
    by (simp add: example_doctors_def is_doctor_def)
  have n: "in_flight booking_form = []" by (simp add: booking_form_def)
  have v: "map (\<lambda>d. \<lparr>attrs = [(''value'', doctor_id_text nat_runtime d)],
                     text_content = doctor_name d\<rparr>) example_doctors =
      [\<lparr>attrs = [(''value'', ''7'')], text_content = ''Dr. Ivanova''\<rparr>,
       \<lparr>attrs = [(''value'', ''9'')], text_content = ''Dr. Petrov''\<rparr>]"
    by (simp add: example_doctors_def doctor_id_text_def doctor_name_def nat_runtime_def
        show_nat_digit digit_char_def)
  note c5 = c5_last_response_wins [OF h1 h2 h3, of nat_runtime "JArr example_doctors"
      "Parsed (JArr other_doctors)" example_doctors]
  note urls = c5 [THEN conjunct1]
  note opts = c5 [THEN conjunct2, THEN conjunct2, rule_format, OF h4]
  from urls opts h1 h4 show ?thesis
    by (simp add: n v list_all_iff)
qed

text \<open>
  C6 (as stated, refuted).  On a form that has the specialty control and no doctor
  control, initialisation ends without an exception: the missing doctor control
  does not make it fail.
\<close>

theorem c6_counterexample:
  "document form_without_doctor ''id_doctor'' = None
   \<and> snd (on_dom_content_loaded form_without_doctor) = None"
  by (simp add: form_without_doctor_def on_dom_content_loaded_def Let_def)

text \<open>
  C6 (amended).  Initialisation fails exactly when the specialty control is
  missing, and then attaches nothing.  A missing date control is tolerated: it is
  tested before its listener is attached, and a date control that is present gets
  the listener.  A missing doctor control is not guarded either, but it does not
  fail at initialisation: the failure comes with the change event, at once for an
  empty selection and in the response callback for a non-empty one.
\<close>

theorem c6_initialisation:
  "(snd (on_dom_content_loaded s) = None) = (document s ''id_specialty'' \<noteq> None)
   \<and> (document s ''id_specialty'' = None \<longrightarrow> on_dom_content_loaded s = (s, Some TypeError))
   \<and> (document s ''id_specialty'' \<noteq> None \<longrightarrow>
        map_option change_listeners (document (fst (on_dom_content_loaded s)) ''id_date'') =
        map_option (\<lambda>el. change_listeners el @ [DateChange]) (document s ''id_date''))
   \<and> (document s ''id_specialty'' = Some sp \<and> change_listeners sp = [] \<and>
      document s ''id_doctor'' = None \<longrightarrow>
        dispatch_change ''id_specialty'' [] (fst (on_dom_content_loaded s)) =
          (fst (on_dom_content_loaded s), [TypeError])
        \<and> (specialtyId \<noteq> [] \<longrightarrow>
             settle rt (length (in_flight s)) (Parsed data)
               (fst (dispatch_change ''id_specialty'' specialtyId (fst (on_dom_content_loaded s)))) =
             (fst (on_dom_content_loaded s), Some TypeError)))"
proof -
  have a: "(snd (on_dom_content_loaded s) = None) = (document s ''id_specialty'' \<noteq> None)"
    by (simp add: on_dom_content_loaded_def Let_def split: option.splits)
  have b: "document s ''id_specialty'' = None \<longrightarrow> on_dom_content_loaded s = (s, Some TypeError)"
    by (simp add: on_dom_content_loaded_def)
  have c: "document s ''id_specialty'' \<noteq> None \<longrightarrow>
        map_option change_listeners (document (fst (on_dom_content_loaded s)) ''id_date'') =
        map_option (\<lambda>el. change_listeners el @ [DateChange]) (document s ''id_date'')"
    by (simp add: on_dom_content_loaded_def Let_def add_change_listener_def split: option.splits)
  have d: "dispatch_change ''id_specialty'' [] (fst (on_dom_content_loaded s)) =
          (fst (on_dom_content_loaded s), [TypeError])
        \<and> (specialtyId \<noteq> [] \<longrightarrow>
             settle rt (length (in_flight s)) (Parsed data)
               (fst (dispatch_change ''id_specialty'' specialtyId (fst (on_dom_content_loaded s)))) =
             (fst (on_dom_content_loaded s), Some TypeError))"
    if h: "document s ''id_specialty'' = Some sp" "change_listeners sp = []"
      "document s ''id_doctor'' = None"
  proof -
    let ?s1 = "fst (on_dom_content_loaded s)"
    have l: "map_option change_listeners (document ?s1 ''id_specialty'') = Some [SpecialtyChange]"
      using h by (simp add: on_dom_content_loaded_def Let_def add_change_listener_def
          split: option.splits)
    have nd: "document ?s1 ''id_doctor'' = None"
      using h by (simp add: on_dom_content_loaded_def Let_def split: option.splits)
    have inf: "in_flight ?s1 = in_flight s"
      using h by (simp add: on_dom_content_loaded_def Let_def split: option.splits)
    from l obtain sp1 where sp1: "document ?s1 ''id_specialty'' = Some sp1"
      and ls: "change_listeners sp1 = [SpecialtyChange]"
      by auto
    have disp: "dispatch_change ''id_specialty'' v ?s1 =
        (fst (on_specialty_change v ?s1),
         (case snd (on_specialty_change v ?s1) of None \<Rightarrow> [] | Some x \<Rightarrow> [x]))" for v
      by (simp add: dispatch_change_def sp1 ls split_beta)
    have e: "on_specialty_change [] ?s1 = (?s1, Some TypeError)"
      using nd by (simp add: on_specialty_change_def)
    have f: "settle rt (length (in_flight ?s1)) (Parsed data)
               (fst (on_specialty_change specialtyId ?s1)) = (?s1, Some TypeError)"
      if "specialtyId \<noteq> []"
      using that nd by (simp add: on_specialty_change_nonempty settle_newest)
    from e f show ?thesis by (simp add: disp inf)
  qed
  from a b c d show ?thesis by (intro conjI impI) (simp_all del: not_None_eq)
qed

theorem c6_initialisation_witness:
  "document form_without_doctor ''id_specialty'' \<noteq> None
   \<and> document form_without_doctor ''id_specialty'' = Some \<lparr>children = [], change_listeners = []\<rparr>
   \<and> change_listeners \<lparr>children = [], change_listeners = []\<rparr> = []
   \<and> document form_without_doctor ''id_doctor'' = None
   \<and> ''3'' \<noteq> []
   \<and> snd (on_dom_content_loaded form_without_doctor) = None
   \<and> snd (dispatch_change ''id_specialty'' [] (fst (on_dom_content_loaded form_without_doctor))) =
        [TypeError]
   \<and> snd (settle nat_runtime 0 (Parsed (JArr example_doctors))
        (fst (dispatch_change ''id_specialty'' ''3''
               (fst (on_dom_content_loaded form_without_doctor))))) = Some TypeError
   \<and> document \<lparr>document = Map.empty, in_flight = []\<rparr> ''id_specialty'' = None
   \<and> on_dom_content_loaded \<lparr>document = Map.empty, in_flight = []\<rparr> =
        (\<lparr>document = Map.empty, in_flight = []\<rparr>, Some TypeError)"
proof -
  have h1: "document form_without_doctor ''id_specialty'' =
      Some \<lparr>children = [], change_listeners = []\<rparr>"
    by (simp add: form_without_doctor_def)
  have h2: "change_listeners \<lparr>children = [], change_listeners = []\<rparr> = []" by simp
  have h3: "document form_without_doctor ''id_doctor'' = None"
    by (simp add: form_without_doctor_def)
  have h4: "''3'' \<noteq> []" by simp
  have n: "in_flight form_without_doctor = []" by (simp add: form_without_doctor_def)
  have h5: "document \<lparr>document = Map.empty, in_flight = []\<rparr> ''id_specialty'' = None" by simp
  note w = c6_initialisation [of form_without_doctor "\<lparr>children = [], change_listeners = []\<rparr>"
      "''3''" nat_runtime "JArr example_doctors"]
  note e = c6_initialisation [of "\<lparr>document = Map.empty, in_flight = []\<rparr>"]
  from w h1 h2 h3 h4 have "snd (on_dom_content_loaded form_without_doctor) = None
    \<and> snd (dispatch_change ''id_specialty'' [] (fst (on_dom_content_loaded form_without_doctor))) =
        [TypeError]
    \<and> snd (settle nat_runtime 0 (Parsed (JArr example_doctors))
        (fst (dispatch_change ''id_specialty'' ''3''
               (fst (on_dom_content_loaded form_without_doctor))))) = Some TypeError"
    by (simp add: n)
  moreover from e h5 have "on_dom_content_loaded \<lparr>document = Map.empty, in_flight = []\<rparr> =
        (\<lparr>document = Map.empty, in_flight = []\<rparr>, Some TypeError)"
    by simp
  ultimately show ?thesis using h1 h2 h3 h4 h5 by simp
qed

text \<open>
  C7.  A change event with a non-empty specialty id starts exactly one request,
  whatever the page has seen before: the requests in flight grow by one, for the
  URL of that id, and the document is not touched.  When the event is completed
  by a parsed response, the doctor control is rebuilt from the response alone:
  for an array of Doctor records it holds exactly their options, in order, whatever
  it held before; for the empty array the single "no doctors" option; after an
  empty selection the single placeholder.  In general the options after the event
  do not depend on the options before it: two pages that both have the control end
  with the same options.
\<close>

theorem c7_fresh_request_full_rebuild:
  "(specialtyId \<noteq> [] \<longrightarrow>
      (\<exists>r. in_flight (fst (on_specialty_change specialtyId s)) = in_flight s @ [r]
          \<and> url r = ''/get-doctors/?specialty_id='' @ specialtyId)
      \<and> document (fst (on_specialty_change specialtyId s)) = document s)
   \<and> (document s ''id_doctor'' \<noteq> None \<and> document s' ''id_doctor'' \<noteq> None \<longrightarrow>
        doctor_options (change_and_response rt specialtyId (Parsed data) s) =
        doctor_options (change_and_response rt specialtyId (Parsed data) s'))
   \<and> (document s ''id_doctor'' \<noteq> None \<and> specialtyId \<noteq> [] \<and> ds \<noteq> [] \<and>
      (\<forall>d\<in>set ds. is_doctor d) \<longrightarrow>
        doctor_options (change_and_response rt specialtyId (Parsed (JArr ds)) s) =
        Some (map (\<lambda>d. \<lparr>attrs = [(''value'', doctor_id_text rt d)],
                         text_content = doctor_name d\<rparr>) ds))
   \<and> (document s ''id_doctor'' \<noteq> None \<and> specialtyId \<noteq> [] \<and> ds \<noteq> [] \<and>
      (\<forall>d\<in>set ds. d \<noteq> JNull \<and> member_printable d ''id'' \<and> member_printable d ''name'') \<longrightarrow>
        doctor_options (change_and_response rt specialtyId (Parsed (JArr ds)) s) =
        Some (map (\<lambda>d. \<lparr>attrs = [(''value'', expected_value rt (own_member d ''id''))],
                         text_content = expected_label rt (own_member d ''name'')\<rparr>) ds))
   \<and> (document s ''id_doctor'' \<noteq> None \<and> specialtyId \<noteq> [] \<longrightarrow>
        doctor_options (change_and_response rt specialtyId (Parsed (JArr [])) s) =
        Some [\<lparr>attrs = [], text_content = no_doctors_text\<rparr>])
   \<and> (document s ''id_doctor'' \<noteq> None \<longrightarrow>
        doctor_options (change_and_response rt [] resp s) =
        Some [\<lparr>attrs = [(''value'', [])], text_content = choose_specialty_text\<rparr>])"
proof -
  have a: "specialtyId \<noteq> [] \<longrightarrow>
      (\<exists>r. in_flight (fst (on_specialty_change specialtyId s)) = in_flight s @ [r]
          \<and> url r = ''/get-doctors/?specialty_id='' @ specialtyId)
      \<and> document (fst (on_specialty_change specialtyId s)) = document s"
    by (simp add: on_specialty_change_nonempty)
  have b: "document s ''id_doctor'' \<noteq> None \<and> document s' ''id_doctor'' \<noteq> None \<longrightarrow>
        doctor_options (change_and_response rt specialtyId (Parsed data) s) =
        doctor_options (change_and_response rt specialtyId (Parsed data) s')"
    using on_data_children [of rt data]
    by (auto simp: change_and_response_eq doctor_options_def)
  have c: "document s ''id_doctor'' \<noteq> None \<and> specialtyId \<noteq> [] \<and> ds \<noteq> [] \<and>
      (\<forall>d\<in>set ds. is_doctor d) \<longrightarrow>
        doctor_options (change_and_response rt specialtyId (Parsed (JArr ds)) s) =
        Some (map (\<lambda>d. \<lparr>attrs = [(''value'', doctor_id_text rt d)],
                         text_content = doctor_name d\<rparr>) ds)"
    by (auto simp: change_and_response_eq doctor_options_def on_data_doctors)
  have d: "document s ''id_doctor'' \<noteq> None \<and> specialtyId \<noteq> [] \<and> ds \<noteq> [] \<and>
      (\<forall>d\<in>set ds. d \<noteq> JNull \<and> member_printable d ''id'' \<and> member_printable d ''name'') \<longrightarrow>
        doctor_options (change_and_response rt specialtyId (Parsed (JArr ds)) s) =
        Some (map (\<lambda>d. \<lparr>attrs = [(''value'', expected_value rt (own_member d ''id''))],
                         text_content = expected_label rt (own_member d ''name'')\<rparr>) ds)"
    by (auto simp: change_and_response_eq doctor_options_def on_data_expected)
  have e: "document s ''id_doctor'' \<noteq> None \<and> specialtyId \<noteq> [] \<longrightarrow>
        doctor_options (change_and_response rt specialtyId (Parsed (JArr [])) s) =
        Some [\<lparr>attrs = [], text_content = no_doctors_text\<rparr>]"
    by (auto simp: change_and_response_eq doctor_options_def on_data_empty_array)
  have f: "document s ''id_doctor'' \<noteq> None \<longrightarrow>
        doctor_options (change_and_response rt [] resp s) =
        Some [\<lparr>attrs = [(''value'', [])], text_content = choose_specialty_text\<rparr>]"
    by (auto simp: change_and_response_eq doctor_options_def choose_specialty_option_def)
  from a b c d e f show ?thesis by (intro conjI) (rule a b c d e f)+
qed

theorem c7_fresh_request_full_rebuild_witness:
  "''3'' \<noteq> []
   \<and> document booking_form ''id_doctor'' \<noteq> None
   \<and> document (fst (on_specialty_change [] booking_form)) ''id_doctor'' \<noteq> None
   \<and> example_doctors \<noteq> [] \<and> list_all is_doctor example_doctors
   \<and> list_all (\<lambda>d. d \<noteq> JNull \<and> member_printable d ''id'' \<and> member_printable d ''name'')
        example_doctors
   \<and> map url (in_flight (fst (on_specialty_change ''3'' (fst (on_specialty_change ''3'' booking_form))))) =
       [''/get-doctors/?specialty_id=3'', ''/get-doctors/?specialty_id=3'']
   \<and> doctor_options booking_form = Some [stale_option]
   \<and> doctor_options
        (change_and_response nat_runtime ''3'' (Parsed (JArr example_doctors)) booking_form) =
      Some [\<lparr>attrs = [(''value'', ''7'')], text_content = ''Dr. Ivanova''\<rparr>,
            \<lparr>attrs = [(''value'', ''9'')], text_content = ''Dr. Petrov''\<rparr>]
   \<and> doctor_options
        (change_and_response nat_runtime ''3'' (Parsed (JArr example_doctors))
           (fst (on_specialty_change [] booking_form))) =
      Some [\<lparr>attrs = [(''value'', ''7'')], text_content = ''Dr. Ivanova''\<rparr>,
            \<lparr>attrs = [(''value'', ''9'')], text_content = ''Dr. Petrov''\<rparr>]
   \<and> doctor_options
        (change_and_response nat_runtime ''3'' (Parsed (JArr [])) booking_form) =
      Some [\<lparr>attrs = [], text_content = no_doctors_text\<rparr>]
   \<and> doctor_options
        (change_and_response nat_runtime [] (Parsed (JArr example_doctors)) booking_form) =
      Some [\<lparr>attrs = [(''value'', [])], text_content = choose_specialty_text\<rparr>]"
proof -
  let ?s' = "fst (on_specialty_change [] booking_form)"
  have h1: "''3'' \<noteq> []" by simp
  have h2: "document booking_form ''id_doctor'' \<noteq> None"
    by (simp add: booking_form_def)
  have h3: "document ?s' ''id_doctor'' \<noteq> None"
    by (simp add: booking_form_def on_specialty_change_def)
  have h4: "example_doctors \<noteq> []" by (simp add: example_doctors_def)
  have h5: "\<forall>d\<in>set example_doctors. is_doctor d"
    by (simp add: example_doctors_def is_doctor_def)
  have h6: "\<forall>d\<in>set example_doctors.
      d \<noteq> JNull \<and> member_printable d ''id'' \<and> member_printable d ''name''"
    by (simp add: example_doctors_def member_printable_def)
  have u: "map url (in_flight (fst (on_specialty_change ''3''
      (fst (on_specialty_change ''3'' booking_form))))) =
       [''/get-doctors/?specialty_id=3'', ''/get-doctors/?specialty_id=3'']"
    by (simp add: on_specialty_change_def booking_form_def)
  have o: "doctor_options booking_form = Some [stale_option]"
    by (simp add: doctor_options_def booking_form_def)
  have v: "map (\<lambda>d. \<lparr>attrs = [(''value'', doctor_id_text nat_runtime d)],
                     text_content = doctor_name d\<rparr>) example_doctors =
      [\<lparr>attrs = [(''value'', ''7'')], text_content = ''Dr. Ivanova''\<rparr>,
       \<lparr>attrs = [(''value'', ''9'')], text_content = ''Dr. Petrov''\<rparr>]"
    by (simp add: example_doctors_def doctor_id_text_def doctor_name_def nat_runtime_def
        show_nat_digit digit_char_def)
  note w = c7_fresh_request_full_rebuild [of "''3''" booking_form ?s' nat_runtime
      "JArr example_doctors" example_doctors "Parsed (JArr example_doctors)"]
  from w h2 h3 have ind: "doctor_options
        (change_and_response nat_runtime ''3'' (Parsed (JArr example_doctors)) booking_form) =
      doctor_options
        (change_and_response nat_runtime ''3'' (Parsed (JArr example_doctors)) ?s')"
    by blast
  from w h1 h2 h4 h5 have rebuilt: "doctor_options
        (change_and_response nat_runtime ''3'' (Parsed (JArr example_doctors)) booking_form) =
      Some (map (\<lambda>d. \<lparr>attrs = [(''value'', doctor_id_text nat_runtime d)],
                       text_content = doctor_name d\<rparr>) example_doctors)"
    by blast
  from w h1 h2 have none: "doctor_options
        (change_and_response nat_runtime ''3'' (Parsed (JArr [])) booking_form) =
      Some [\<lparr>attrs = [], text_content = no_doctors_text\<rparr>]"
    by blast
  from w h2 have empty: "doctor_options
        (change_and_response nat_runtime [] (Parsed (JArr example_doctors)) booking_form) =
      Some [\<lparr>attrs = [(''value'', [])], text_content = choose_specialty_text\<rparr>]"
    by blast
  from h1 h2 h3 h4 h5 h6 u o none empty rebuilt [unfolded v] ind [unfolded rebuilt v, symmetric]
  show ?thesis by (simp add: list_all_iff)
qed

text \<open>
  C8.  Running a complete change event a second time, with the same specialty id
  and the same response, gives the page the first run gave; in particular the
  doctor control holds the same options.  This holds for every specialty id and
  every response, failures included.
\<close>

theorem c8_idempotent:
  "change_and_response rt specialtyId resp (change_and_response rt specialtyId resp s) =
     change_and_response rt specialtyId resp s
   \<and> doctor_options
       (change_and_response rt specialtyId resp (change_and_response rt specialtyId resp s)) =
     doctor_options (change_and_response rt specialtyId resp s)"
proof -
  have "change_and_response rt specialtyId resp (change_and_response rt specialtyId resp s) =
     change_and_response rt specialtyId resp s"
    by (simp add: change_and_response_eq on_data_again split: option.splits response.splits)
  then show ?thesis by simp
qed

theorem c8_idempotent_witness:
  "doctor_options
     (change_and_response nat_runtime ''3'' (Parsed (JArr example_doctors))
        (change_and_response nat_runtime ''3'' (Parsed (JArr example_doctors)) booking_form)) =
   Some [\<lparr>attrs = [(''value'', ''7'')], text_content = ''Dr. Ivanova''\<rparr>,
         \<lparr>attrs = [(''value'', ''9'')], text_content = ''Dr. Petrov''\<rparr>]"
proof -
  have "doctor_options
      (change_and_response nat_runtime ''3'' (Parsed (JArr example_doctors)) booking_form) =
    Some [\<lparr>attrs = [(''value'', ''7'')], text_content = ''Dr. Ivanova''\<rparr>,
          \<lparr>attrs = [(''value'', ''9'')], text_content = ''Dr. Petrov''\<rparr>]"
    by (simp add: change_and_response_eq booking_form_def doctor_options_def on_data_def
        example_doctors_def make_option_def to_dom_string_def to_nullable_dom_string_def
        set_value_def set_text_content_def create_option_def append_child_def nat_runtime_def
        show_nat_digit digit_char_def)
  with c8_idempotent [of nat_runtime "''3''" "Parsed (JArr example_doctors)" booking_form]
  show ?thesis by simp
qed

text \<open>
  C9.  The change handler and the response callback write to nothing but the
  children of the doctor control.  On a page whose requests in flight were made by
  the handler (a property both steps keep), every element other than the doctor
  control is the same after either step, and the doctor control keeps its
  listeners.  Starting the request is the handler's only other effect; once the
  event is completed the requests in flight are what they were.
\<close>

theorem c9_only_doctor_subtree:
  assumes "captured_doctor_only s"
    and "i \<noteq> ''id_doctor''"
  shows "document (fst (on_specialty_change specialtyId s)) i = document s i
       \<and> document (fst (settle rt k resp s)) i = document s i
       \<and> map_option change_listeners (document (fst (on_specialty_change specialtyId s)) ''id_doctor'') =
         map_option change_listeners (document s ''id_doctor'')
       \<and> map_option change_listeners (document (fst (settle rt k resp s)) ''id_doctor'') =
         map_option change_listeners (document s ''id_doctor'')
       \<and> in_flight (change_and_response rt specialtyId resp s) = in_flight s
       \<and> captured_doctor_only (fst (on_specialty_change specialtyId s))
       \<and> captured_doctor_only (fst (settle rt k resp s))"
proof -
  have a: "document (fst (on_specialty_change specialtyId s)) i = document s i"
    using assms(2) by (simp add: on_specialty_change_def Let_def split: option.splits)
  have b: "document (fst (settle rt k resp s)) i = document s i"
    using settle_document [OF assms(1), of rt k resp] assms(2) by auto
  have c: "map_option change_listeners (document (fst (on_specialty_change specialtyId s)) ''id_doctor'') =
      map_option change_listeners (document s ''id_doctor'')"
    by (simp add: on_specialty_change_def Let_def split: option.splits)
  have d: "map_option change_listeners (document (fst (settle rt k resp s)) ''id_doctor'') =
      map_option change_listeners (document s ''id_doctor'')"
    using settle_document [OF assms(1), of rt k resp] by (auto simp: on_data_listeners)
  have e: "in_flight (change_and_response rt specialtyId resp s) = in_flight s"
    by (simp add: change_and_response_eq split: option.splits response.splits)
  from a b c d e captured_doctor_only_change [OF assms(1)] captured_doctor_only_settle [OF assms(1)]
  show ?thesis by simp
qed

theorem c9_only_doctor_subtree_witness:
  "captured_doctor_only (fst (on_specialty_change ''3'' booking_form))
   \<and> ''id_specialty'' \<noteq> ''id_doctor''
   \<and> document (fst (settle nat_runtime 0 (Parsed (JArr example_doctors))
                  (fst (on_specialty_change ''3'' booking_form)))) ''id_specialty'' =
      Some \<lparr>children = [], change_listeners = [SpecialtyChange]\<rparr>"
proof -
  have h1: "captured_doctor_only (fst (on_specialty_change ''3'' booking_form))"
    by (simp add: captured_doctor_only_def on_specialty_change_def booking_form_def)
  have h2: "''id_specialty'' \<noteq> ''id_doctor''" by simp
  have d: "document (fst (on_specialty_change ''3'' booking_form)) ''id_specialty'' =
      Some \<lparr>children = [], change_listeners = [SpecialtyChange]\<rparr>"
    by (simp add: on_specialty_change_def booking_form_def)
  note c9 = c9_only_doctor_subtree [OF h1 h2, of "''3''" nat_runtime 0
      "Parsed (JArr example_doctors)"]
  from c9 [THEN conjunct2, THEN conjunct1] d h1 h2 show ?thesis by simp
qed

text \<open>
  C10 (as stated, refuted).  An array holding \<open>null\<close> makes the callback throw:
  reading \<open>doctor.id\<close> of \<open>null\<close> is a TypeError.  The control has been emptied by
  then, and the elements after the \<open>null\<close> get no option: of three elements, one.
  A record whose \<open>id\<close> is an object with an own \<open>toString\<close> property throws as
  well, when the identifier is converted for the attribute.
\<close>

theorem c10_counterexample:
  "on_data nat_runtime (JArr [JNull]) \<lparr>children = [stale_option], change_listeners = []\<rparr> =
     (\<lparr>children = [], change_listeners = []\<rparr>, Some TypeError)
   \<and> on_data nat_runtime
        (JArr [JObj [(''id'', JNum 7), (''name'', JStr ''Dr. Ivanova'')], JNull,
               JObj [(''id'', JNum 9), (''name'', JStr ''Dr. Petrov'')]])
        \<lparr>children = [stale_option], change_listeners = []\<rparr> =
     (\<lparr>children = [\<lparr>attrs = [(''value'', ''7'')], text_content = ''Dr. Ivanova''\<rparr>],
       change_listeners = []\<rparr>,
      Some TypeError)
   \<and> on_data nat_runtime
        (JArr [JObj [(''id'', JObj [(''toString'', JNum 1)]), (''name'', JStr ''Dr. Petrov'')]])
        \<lparr>children = [stale_option], change_listeners = []\<rparr> =
     (\<lparr>children = [], change_listeners = []\<rparr>, Some TypeError)"
  by (simp add: on_data_def make_option_def to_dom_string_def to_nullable_dom_string_def
      set_value_def set_text_content_def create_option_def append_child_def nat_runtime_def
      show_nat_digit digit_char_def)

text \<open>
  C10 (amended).  For every array response whose elements are not \<open>null\<close> and
  whose \<open>id\<close> and \<open>name\<close> members, where present, convert to strings without an
  exception (every primitive does; an object with an own \<open>toString\<close> property does
  not), the callback ends without throwing.  A non-empty array gives exactly one
  option per element, in order: its \<open>value\<close> is the identifier in string form and
  its label the name, and a record without \<open>id\<close> gets the value \<open>undefined\<close>, a
  record without \<open>name\<close> (or with \<open>null\<close> for it) an empty label, so such records
  neither abort nor shorten the rebuild.  The empty array gives the single
  "no doctors" option.
\<close>

theorem c10_one_option_per_element:
  assumes "\<forall>d\<in>set ds. d \<noteq> JNull \<and> member_printable d ''id'' \<and> member_printable d ''name''"
  shows "snd (on_data rt (JArr ds) sel) = None
       \<and> (ds \<noteq> [] \<longrightarrow>
            children (fst (on_data rt (JArr ds) sel)) =
              map (\<lambda>d. \<lparr>attrs = [(''value'', expected_value rt (own_member d ''id''))],
                         text_content = expected_label rt (own_member d ''name'')\<rparr>) ds
            \<and> length (children (fst (on_data rt (JArr ds) sel))) = length ds
            \<and> (\<forall>k<length ds.
                 (own_member (ds ! k) ''id'' = None \<longrightarrow>
                    attrs (children (fst (on_data rt (JArr ds) sel)) ! k) =
                      [(''value'', ''undefined'')])
               \<and> (own_member (ds ! k) ''name'' = None \<or> own_member (ds ! k) ''name'' = Some JNull \<longrightarrow>
                    text_content (children (fst (on_data rt (JArr ds) sel)) ! k) = [])
               \<and> (\<forall>s. own_member (ds ! k) ''id'' = Some (JStr s) \<longrightarrow>
                    attrs (children (fst (on_data rt (JArr ds) sel)) ! k) = [(''value'', s)])
               \<and> (\<forall>n. own_member (ds ! k) ''id'' = Some (JNum n) \<longrightarrow>
                    attrs (children (fst (on_data rt (JArr ds) sel)) ! k) =
                      [(''value'', number_to_string rt n)])
               \<and> (\<forall>s. own_member (ds ! k) ''name'' = Some (JStr s) \<longrightarrow>
                    text_content (children (fst (on_data rt (JArr ds) sel)) ! k) = s)))
       \<and> (ds = [] \<longrightarrow>
            children (fst (on_data rt (JArr ds) sel)) =
              [\<lparr>attrs = [], text_content = no_doctors_text\<rparr>])"
proof (cases "ds = []")
  case True
  then show ?thesis by (simp add: on_data_empty_array)
next
  case False
  from on_data_expected [OF False assms, of rt sel] False show ?thesis
    by auto
qed

theorem c10_one_option_per_element_witness:
  "list_all (\<lambda>d. d \<noteq> JNull \<and> member_printable d ''id'' \<and> member_printable d ''name'')
     partial_records
   \<and> partial_records \<noteq> []
   \<and> snd (on_data nat_runtime (JArr partial_records)
        \<lparr>children = [stale_option], change_listeners = []\<rparr>) = None
   \<and> children (fst (on_data nat_runtime (JArr partial_records)
        \<lparr>children = [stale_option], change_listeners = []\<rparr>)) =
         [\<lparr>attrs = [(''value'', ''undefined'')], text_content = []\<rparr>,
          \<lparr>attrs = [(''value'', ''7'')], text_content = []\<rparr>,
          \<lparr>attrs = [(''value'', ''undefined'')], text_content = ''Dr. Petrov''\<rparr>,
          \<lparr>attrs = [(''value'', ''undefined'')], text_content = []\<rparr>]
   \<and> children (fst (on_data nat_runtime (JArr [])
        \<lparr>children = [stale_option], change_listeners = []\<rparr>)) =
         [\<lparr>attrs = [], text_content = no_doctors_text\<rparr>]"
proof -
  let ?sel = "\<lparr>children = [stale_option], change_listeners = []\<rparr>"
  have h: "\<forall>d\<in>set partial_records.
      d \<noteq> JNull \<and> member_printable d ''id'' \<and> member_printable d ''name''"
    by (simp add: partial_records_def member_printable_def)
  have ne: "partial_records \<noteq> []" by (simp add: partial_records_def)
  have e: "\<forall>d\<in>set ([] :: nat json list).
      d \<noteq> JNull \<and> member_printable d ''id'' \<and> member_printable d ''name''"
    by simp
  have v: "map (\<lambda>d. \<lparr>attrs = [(''value'', expected_value nat_runtime (own_member d ''id''))],
                     text_content = expected_label nat_runtime (own_member d ''name'')\<rparr>)
             partial_records =
         [\<lparr>attrs = [(''value'', ''undefined'')], text_content = []\<rparr>,
          \<lparr>attrs = [(''value'', ''7'')], text_content = []\<rparr>,
          \<lparr>attrs = [(''value'', ''undefined'')], text_content = ''Dr. Petrov''\<rparr>,
          \<lparr>attrs = [(''value'', ''undefined'')], text_content = []\<rparr>]"
    by (simp add: partial_records_def own_member_def nat_runtime_def show_nat_digit digit_char_def)
  note w = c10_one_option_per_element [OF h, of nat_runtime ?sel]
  note w0 = c10_one_option_per_element [OF e, of nat_runtime ?sel]
  from w have a: "snd (on_data nat_runtime (JArr partial_records) ?sel) = None"
    by (rule conjunct1)
  from w ne have b: "children (fst (on_data nat_runtime (JArr partial_records) ?sel)) =
      map (\<lambda>d. \<lparr>attrs = [(''value'', expected_value nat_runtime (own_member d ''id''))],
                 text_content = expected_label nat_runtime (own_member d ''name'')\<rparr>)
        partial_records"
    by blast
  from w0 have c: "children (fst (on_data nat_runtime (JArr []) ?sel)) =
      [\<lparr>attrs = [], text_content = no_doctors_text\<rparr>]"
    by blast
  from h ne a b c show ?thesis by (simp add: v list_all_iff)
qed

end
